theory Spec2Isabelle
  imports Main
begin

section \<open>Values shared by the cursor and the change stream\<close>

text \<open>
  A \<open>bson\<close> is an opaque BSON value received from or sent to the server: a resume token
  (\<open>ResumeToken = unknown\<close>), an operation time (a \<open>Timestamp\<close>) or the value of an option.
  Resume tokens and timestamps are objects, so a value that is present is truthy;
  \<open>None\<close> stands for JavaScript's \<open>undefined\<close> and \<open>null\<close>.
\<close>

datatype bson = Bson nat

text \<open>
  A cursor id is a \<open>Long\<close> object. The source compares it by reference with the shared
  constant \<open>Long.ZERO\<close> (\<open>this[kId] === Long.ZERO\<close>) and by value with \<open>isZero()\<close>, so the
  model keeps the constant apart from every other \<open>Long\<close>: \<open>LongObj n\<close> is an object
  allocated by \<open>Long.fromNumber\<close> or by the BSON deserialiser, with value \<open>n\<close>.
\<close>

datatype long = LongZERO | LongObj int

fun isZero :: "long \<Rightarrow> bool" where
  "isZero LongZERO = True"
| "isZero (LongObj n) = (n = 0)"

definition fromNumber :: "int \<Rightarrow> long" where
  "fromNumber n = LongObj n"

datatype error =
    MongoCursorExhaustedError
  | MongoNetworkError
  | MongoRuntimeError string
  | MongoAPIError string
  | MongoChangeStreamError string
  | MongoServerError nat

fun isNetworkError :: "error \<Rightarrow> bool" where
  "isNetworkError MongoNetworkError = True"
| "isNetworkError _ = False"

datatype server = Server (maxWireVersion: nat)

record session =
  owner_is_cursor :: bool
  inTransaction :: bool

datatype effect =
    Emit_CLOSE
  | Emit_RESUME_TOKEN_CHANGED "bson option"
  | Emit_INIT
  | Emit_MORE
  | Emit_RESPONSE
  | KillCursors long
  | GetMore nat
  | EndSession
  | ClearPinnedConnection

section \<open>AbstractCursor\<close>

text \<open>
  The fields of \<open>AbstractCursor\<close> that the cursor functions read or write. \<open>effects\<close>
  records, oldest first, the events the cursor emits and the calls it makes on its
  server and session.
\<close>

record 'd abstract_cursor =
  kId :: "long option"
  kSession :: "session option"
  kServer :: "server option"
  kNamespace :: "string option"
  kDocuments :: "'d list"
  kTransform :: "('d \<Rightarrow> 'd) option"
  kInitialized :: bool
  kClosed :: bool
  kKilled :: bool
  batchSize :: "nat option"
  loadBalanced :: bool
  effects :: "effect list"

definition perform :: "effect \<Rightarrow> ('d, 'm) abstract_cursor_scheme \<Rightarrow> ('d, 'm) abstract_cursor_scheme" where
  "perform x c = c\<lparr>effects := effects c @ [x]\<rparr>"

definition bufferedCount :: "('d, 'm) abstract_cursor_scheme \<Rightarrow> nat" where
  "bufferedCount c = length (kDocuments c)"

definition cursorIsDead :: "('d, 'm) abstract_cursor_scheme \<Rightarrow> bool" where
  "cursorIsDead c = (case kId c of None \<Rightarrow> False | Some i \<Rightarrow> isZero i)"

text \<open>
  The block \<open>if (session) { ... }\<close> that both exits of \<open>cleanupCursor\<close> run: an owned
  session is ended, another one outside a transaction has its pinned connection cleared.
\<close>

definition releaseSession :: "('d, 'm) abstract_cursor_scheme \<Rightarrow> ('d, 'm) abstract_cursor_scheme" where
  "releaseSession c =
     (case kSession c of
        None \<Rightarrow> c
      | Some s \<Rightarrow>
          if owner_is_cursor s then perform EndSession c
          else if \<not> inTransaction s then perform ClearPinnedConnection c
          else c)"

definition completeCleanup :: "('d, 'm) abstract_cursor_scheme \<Rightarrow> ('d, 'm) abstract_cursor_scheme" where
  "completeCleanup c = perform Emit_CLOSE (releaseSession c)"

text \<open>
  \<open>cleanupCursor(cursor, options, callback)\<close>; the state returned is the one the callback
  sees. \<open>options\<close> is \<open>None\<close> for \<open>undefined\<close>, else the pair of its \<open>error\<close> and
  \<open>needsToEmitClosed\<close> members.
\<close>

definition cleanupCursor ::
  "(error option \<times> bool option) option \<Rightarrow> ('d, 'm) abstract_cursor_scheme \<Rightarrow> ('d, 'm) abstract_cursor_scheme" where
  "cleanupCursor opts c =
     (let err = (case opts of None \<Rightarrow> None | Some (e, _) \<Rightarrow> e);
          needsToEmitClosed =
            (case (case opts of None \<Rightarrow> None | Some (_, n) \<Rightarrow> n) of
               None \<Rightarrow> kDocuments c = []
             | Some b \<Rightarrow> b)
      in if (case err of None \<Rightarrow> False | Some e \<Rightarrow> loadBalanced c \<and> isNetworkError e)
         then completeCleanup c
         else
           (case (kId c, kServer c, kNamespace c) of
              (Some cursorId, Some srv, Some cursorNs) \<Rightarrow>
                if isZero cursorId
                then releaseSession
                       (if needsToEmitClosed
                        then perform Emit_CLOSE (c\<lparr>kClosed := True, kId := Some LongZERO\<rparr>)
                        else c)
                else completeCleanup (perform (KillCursors cursorId) (c\<lparr>kKilled := True\<rparr>))
            | _ \<Rightarrow>
                releaseSession
                  (if needsToEmitClosed
                   then perform Emit_CLOSE (c\<lparr>kClosed := True, kId := Some LongZERO\<rparr>)
                   else c)))"

text \<open>\<open>AbstractCursor.close\<close>.\<close>

definition close :: "('d, 'm) abstract_cursor_scheme \<Rightarrow> ('d, 'm) abstract_cursor_scheme" where
  "close c = cleanupCursor (Some (None, Some (\<not> kClosed c))) (c\<lparr>kClosed := True\<rparr>)"

text \<open>
  \<open>nextDocument\<close>. Buffered documents are objects, so the test \<open>if (doc)\<close> on a shifted
  document succeeds.
\<close>

definition nextDocument ::
  "('d, 'm) abstract_cursor_scheme \<Rightarrow> ('d, 'm) abstract_cursor_scheme \<times> 'd option" where
  "nextDocument c =
     (case kDocuments c of
        [] \<Rightarrow> (c, None)
      | doc # ds \<Rightarrow>
          (c\<lparr>kDocuments := ds\<rparr>,
           Some (case kTransform c of None \<Rightarrow> doc | Some transform \<Rightarrow> transform doc)))"

text \<open>
  What the server sends. \<open>wire_id\<close> is \<open>response.cursor.id\<close>: a JavaScript number or a
  deserialised \<open>Long\<close>. In a \<open>cursor_desc\<close> the field \<open>docs\<close> is \<open>firstBatch\<close> in the reply
  to the initial command and \<open>nextBatch\<close> in the reply to a \<open>getMore\<close>.
\<close>

datatype wire_id = NumberId int | LongId int

fun toLong :: "wire_id \<Rightarrow> long" where
  "toLong (NumberId n) = fromNumber n"
| "toLong (LongId n) = LongObj n"

record 'd cursor_desc =
  desc_id :: wire_id
  desc_ns :: "string option"
  docs :: "'d list"
  desc_postBatchResumeToken :: "bson option"

text \<open>
  The response to the initial command: with a \<open>cursor\<close> member and the operation time,
  or without one (an explain, say), which the cursor buffers as a document.
\<close>

datatype 'd response = CursorResponse "'d cursor_desc" "bson option" | PlainResponse 'd

record 'd exec_result =
  res_server :: server
  res_session :: "session option"
  res_response :: "'d response"

text \<open>
  The replies of the outside world, in the order the cursor receives them.
  \<open>SelectServerFailed e\<close>: the topology had to check for session support and the server
  selection failed with \<open>e\<close>. \<open>Initialized s err state\<close>: \<open>_initialize\<close> called back with
  \<open>(err, state)\<close>, where \<open>s\<close> is the implicit session the topology started for a cursor
  without one (\<open>None\<close> without session support). \<open>GotMore err response\<close>: the \<open>getMore\<close>
  command called back with \<open>(err, response)\<close>.
\<close>

datatype 'd reply =
    SelectServerFailed error
  | Initialized "session option" "error option" "'d exec_result option"
  | GotMore "error option" "'d cursor_desc option"

text \<open>The result a callback receives, or \<open>Pending\<close> while the reply awaited has not arrived.\<close>

datatype 'd outcome = Returned "error option" "'d option" | Pending

text \<open>
  \<open>AbstractCursor[kInit]\<close> on one reply; the result is the state and the arguments
  \<open>(err, value)\<close> of its callback. A reply to a \<open>getMore\<close> is not for \<open>kInit\<close>.
\<close>

definition kInit ::
  "'d reply \<Rightarrow> ('d, 'm) abstract_cursor_scheme \<Rightarrow>
     (('d, 'm) abstract_cursor_scheme \<times> error option \<times> 'd option) option" where
  "kInit r c =
     (case r of
        SelectServerFailed e \<Rightarrow> Some (c, Some e, None)
      | GotMore _ _ \<Rightarrow> None
      | Initialized s err state \<Rightarrow>
          (let c0 = (if kSession c = None then c\<lparr>kSession := s\<rparr> else c);
               c1 = (case state of
                       None \<Rightarrow> c0
                     | Some st \<Rightarrow>
                         (let c' = c0\<lparr>kServer := Some (res_server st), kSession := res_session st\<rparr>
                          in case res_response st of
                               CursorResponse d _ \<Rightarrow>
                                 c'\<lparr>kId := Some (toLong (desc_id d)),
                                    kNamespace := (case desc_ns d of
                                                     None \<Rightarrow> kNamespace c'
                                                   | Some n \<Rightarrow> if n = [] then kNamespace c' else Some n),
                                    kDocuments := docs d\<rparr>
                             | PlainResponse raw \<Rightarrow>
                                 if kId c' = None
                                 then c'\<lparr>kId := Some LongZERO, kDocuments := [raw]\<rparr>
                                 else c'));
               c2 = c1\<lparr>kInitialized := True\<rparr>
           in if err \<noteq> None \<or> cursorIsDead c2
              then (case nextDocument (cleanupCursor (Some (err, None)) c2) of
                      (c3, doc) \<Rightarrow> Some (c3, err, doc))
              else Some (c2, None, None)))"

text \<open>
  The module-level \<open>next(cursor, blocking, callback)\<close>. It takes the replies still to come
  and returns the state, the replies left and what the callback received. Every recursive
  call follows the consumption of one reply.
\<close>

function next_fn ::
  "bool \<Rightarrow> 'd reply list \<Rightarrow> ('d, 'm) abstract_cursor_scheme \<Rightarrow>
     ('d, 'm) abstract_cursor_scheme \<times> 'd reply list \<times> 'd outcome" where
  "next_fn blocking script c =
     (if kClosed c then (c, script, Returned None None)
      else if kDocuments c \<noteq> [] then
        (case nextDocument c of (c', doc) \<Rightarrow> (c', script, Returned None doc))
      else if kId c = None then
        (case script of
           [] \<Rightarrow> (c, [], Pending)
         | r # rest \<Rightarrow>
             (case kInit r c of
                None \<Rightarrow> (c, script, Pending)
              | Some (c', err, val) \<Rightarrow>
                  if err \<noteq> None then (c', rest, Returned err None)
                  else if val \<noteq> None then (c', rest, Returned None val)
                  else next_fn blocking rest c'))
      else if cursorIsDead c then (cleanupCursor None c, script, Returned None None)
      else
        (case kServer c of
           None \<Rightarrow>
             (let err = Some (MongoRuntimeError ''Unable to iterate cursor without selected server'')
              in case nextDocument (cleanupCursor (Some (err, None)) c) of
                   (c', doc) \<Rightarrow> (c', script, Returned err doc))
         | Some srv \<Rightarrow>
             (let c0 = perform (GetMore (case batchSize c of
                                           None \<Rightarrow> 1000
                                         | Some b \<Rightarrow> if b = 0 then 1000 else b)) c
              in case script of
                   GotMore err response # rest \<Rightarrow>
                     (let c1 = (case response of
                                  None \<Rightarrow> c0
                                | Some d \<Rightarrow> c0\<lparr>kDocuments := docs d, kId := Some (toLong (desc_id d))\<rparr>)
                      in if err \<noteq> None \<or> cursorIsDead c1
                         then (case nextDocument (cleanupCursor (Some (err, None)) c1) of
                                 (c', doc) \<Rightarrow> (c', rest, Returned err doc))
                         else if kDocuments c1 = [] \<and> \<not> blocking then (c1, rest, Returned None None)
                         else next_fn blocking rest c1)
                 | _ \<Rightarrow> (c0, script, Pending))))"
  by pat_completeness auto
termination
  by (relation "measure (\<lambda>(blocking, script, c). length script)") auto

declare next_fn.simps [simp del]

text \<open>\<open>AbstractCursor.next\<close> and \<open>AbstractCursor.tryNext\<close>.\<close>

definition cursor_next ::
  "'d reply list \<Rightarrow> ('d, 'm) abstract_cursor_scheme \<Rightarrow>
     ('d, 'm) abstract_cursor_scheme \<times> 'd reply list \<times> 'd outcome" where
  "cursor_next script c =
     (if kId c = Some LongZERO then (c, script, Returned (Some MongoCursorExhaustedError) None)
      else next_fn True script c)"

definition tryNext ::
  "'d reply list \<Rightarrow> ('d, 'm) abstract_cursor_scheme \<Rightarrow>
     ('d, 'm) abstract_cursor_scheme \<times> 'd reply list \<times> 'd outcome" where
  "tryNext script c =
     (if kId c = Some LongZERO then (c, script, Returned (Some MongoCursorExhaustedError) None)
      else next_fn False script c)"

definition count_effect :: "effect \<Rightarrow> ('d, 'm) abstract_cursor_scheme \<Rightarrow> nat" where
  "count_effect x c = length (filter (\<lambda>y. y = x) (effects c))"

text \<open>A cursor that owns a live server cursor: id 42 on a selected server, two documents buffered.\<close>

definition live_cursor :: "nat abstract_cursor" where
  "live_cursor =
     \<lparr>kId = Some (LongObj 42), kSession = None, kServer = Some (Server 13),
      kNamespace = Some ''db.c'', kDocuments = [1, 2], kTransform = None,
      kInitialized = True, kClosed = False, kKilled = False, batchSize = None,
      loadBalanced = False, effects = []\<rparr>"

text \<open>A new cursor, before any iteration: no id, no server, nothing buffered.\<close>

definition fresh_cursor :: "nat abstract_cursor" where
  "fresh_cursor =
     \<lparr>kId = None, kSession = None, kServer = None,
      kNamespace = Some ''db.c'', kDocuments = [], kTransform = None,
      kInitialized = False, kClosed = False, kKilled = False, batchSize = None,
      loadBalanced = False, effects = []\<rparr>"

text \<open>
  The cursor has a live server cursor: the condition under which \<open>cleanupCursor\<close> sends
  \<open>killCursors\<close>.
\<close>

definition has_live_server_cursor :: "('d, 'm) abstract_cursor_scheme \<Rightarrow> bool" where
  "has_live_server_cursor c =
     (case (kId c, kServer c, kNamespace c) of
        (Some i, Some srv, Some n) \<Rightarrow> \<not> isZero i
      | _ \<Rightarrow> False)"

fun is_GetMore :: "effect \<Rightarrow> bool" where
  "is_GetMore (GetMore n) = True"
| "is_GetMore _ = False"

definition getMore_count :: "('d, 'm) abstract_cursor_scheme \<Rightarrow> nat" where
  "getMore_count c = length (filter is_GetMore (effects c))"

text \<open>The document as \<open>nextDocument\<close> hands it out: through the cursor's transform, if any.\<close>

definition transformed :: "('d, 'm) abstract_cursor_scheme \<Rightarrow> 'd \<Rightarrow> 'd" where
  "transformed c doc = (case kTransform c of None \<Rightarrow> doc | Some transform \<Rightarrow> transform doc)"

text \<open>\<open>n\<close> successive calls of \<open>cursor.next()\<close>, each after the previous one has called back.\<close>

fun next_calls ::
  "nat \<Rightarrow> 'd reply list \<Rightarrow> ('d, 'm) abstract_cursor_scheme \<Rightarrow>
     ('d, 'm) abstract_cursor_scheme \<times> 'd reply list \<times> 'd outcome list" where
  "next_calls 0 script c = (c, script, [])"
| "next_calls (Suc n) script c =
     (case cursor_next script c of
        (c', script', r) \<Rightarrow>
          (case next_calls n script' c' of
             (c'', script'', rs) \<Rightarrow> (c'', script'', r # rs)))"

text \<open>An open cursor on server cursor 42 whose buffer is used up, and a last batch with id 0.\<close>

definition drained_cursor :: "nat abstract_cursor" where
  "drained_cursor = live_cursor\<lparr>kDocuments := []\<rparr>"

definition last_batch :: "nat cursor_desc" where
  "last_batch = \<lparr>desc_id = NumberId 0, desc_ns = None, docs = [7, 8, 9], desc_postBatchResumeToken = None\<rparr>"

section \<open>ChangeStreamCursor\<close>

text \<open>
  Options objects are maps from option names to values; a key bound to \<open>undefined\<close> is
  the same as an absent key for every test the source makes.
\<close>

type_synonym options = "string \<rightharpoonup> bson"

definition CHANGE_STREAM_OPTIONS :: "string list" where
  "CHANGE_STREAM_OPTIONS = [''resumeAfter'', ''startAfter'', ''startAtOperationTime'', ''fullDocument'']"

definition CURSOR_OPTIONS :: "string list" where
  "CURSOR_OPTIONS =
     [''batchSize'', ''maxAwaitTimeMS'', ''collation'', ''readPreference'', ''comment'']
     @ CHANGE_STREAM_OPTIONS"

text \<open>
  Modelled from the spec: \<open>filterOptions\<close> of \<open>utils.ts\<close>, which is not among the sources.
  The result holds the entries of \<open>opts\<close> whose name is listed ("the recognized subset of
  options").
\<close>

definition filterOptions :: "options \<Rightarrow> string list \<Rightarrow> options" where
  "filterOptions opts names = (\<lambda>name. if name \<in> set names then opts name else None)"

text \<open>
  The fields \<open>ChangeStreamCursor\<close> adds to \<open>AbstractCursor\<close>. \<open>resumeToken\<close> is the private
  \<open>_resumeToken\<close>. \<open>resumeAfter\<close> and \<open>startAfter\<close> are the two fields the class declares
  beside \<open>options\<close>; no statement of the class assigns them.
\<close>

record 'd change_stream_cursor = "'d abstract_cursor" +
  resumeToken :: "bson option"
  startAtOperationTime :: "bson option"
  hasReceived :: bool
  resumeAfter :: "bson option"
  startAfter :: "bson option"
  options :: options
  postBatchResumeToken :: "bson option"

text \<open>The setter of \<open>resumeToken\<close>: it stores the token and emits \<open>resumeTokenChanged\<close>.\<close>

definition set_resumeToken :: "bson option \<Rightarrow> 'd change_stream_cursor \<Rightarrow> 'd change_stream_cursor" where
  "set_resumeToken token c = perform (Emit_RESUME_TOKEN_CHANGED token) (c\<lparr>resumeToken := token\<rparr>)"

text \<open>
  The constructor, after \<open>super(topology, namespace, options)\<close>. \<open>lb\<close> is the topology's
  \<open>loadBalanced\<close>, \<open>sess\<close> the session of the options when it is a \<open>ClientSession\<close>; a
  \<open>batchSize\<close> option is a number, carried by the value.
\<close>

definition new_ChangeStreamCursor ::
  "bool \<Rightarrow> string \<Rightarrow> session option \<Rightarrow> options \<Rightarrow> 'd change_stream_cursor" where
  "new_ChangeStreamCursor lb namespace sess opts =
     (let c = \<lparr>kId = None, kSession = sess, kServer = None, kNamespace = Some namespace,
               kDocuments = [], kTransform = None, kInitialized = False, kClosed = False,
               kKilled = False,
               batchSize = (case opts ''batchSize'' of None \<Rightarrow> None | Some (Bson n) \<Rightarrow> Some n),
               loadBalanced = lb, effects = [],
               resumeToken = None, startAtOperationTime = opts ''startAtOperationTime'',
               hasReceived = False, resumeAfter = None, startAfter = None, options = opts,
               postBatchResumeToken = None\<rparr>
      in if opts ''startAfter'' \<noteq> None then set_resumeToken (opts ''startAfter'') c
         else if opts ''resumeAfter'' \<noteq> None then set_resumeToken (opts ''resumeAfter'') c
         else c)"

text \<open>
  The getter \<open>resumeOptions\<close>; \<open>wire\<close> is the value of \<open>maxWireVersion(this.server)\<close>, a
  function of \<open>utils.ts\<close>.
\<close>

definition resumeOptions :: "nat \<Rightarrow> 'd change_stream_cursor \<Rightarrow> options" where
  "resumeOptions wire c =
     (let result = filterOptions (options c) CURSOR_OPTIONS
      in if resumeToken c \<noteq> None \<or> startAtOperationTime c \<noteq> None
         then
           (let result' = result(''resumeAfter'' := None, ''startAfter'' := None,
                                 ''startAtOperationTime'' := None)
            in if resumeToken c \<noteq> None
               then
                 (let resumeKey = (if options c ''startAfter'' \<noteq> None \<and> \<not> hasReceived c
                                   then ''startAfter'' else ''resumeAfter'')
                  in result'(resumeKey := resumeToken c))
               else if startAtOperationTime c \<noteq> None \<and> wire \<ge> 7
               then result'(''startAtOperationTime'' := startAtOperationTime c)
               else result')
         else result)"

definition cacheResumeToken :: "bson option \<Rightarrow> 'd change_stream_cursor \<Rightarrow> 'd change_stream_cursor" where
  "cacheResumeToken token c =
     (if bufferedCount c = 0 \<and> postBatchResumeToken c \<noteq> None
      then set_resumeToken (postBatchResumeToken c) c
      else set_resumeToken token c)\<lparr>hasReceived := True\<rparr>"

text \<open>
  \<open>_processBatch\<close> on \<open>response.cursor\<close>; its batch is \<open>firstBatch\<close> when the response has
  one and \<open>nextBatch\<close> otherwise, the field \<open>docs\<close> in both cases.
\<close>

definition processBatch :: "'d cursor_desc \<Rightarrow> 'd change_stream_cursor \<Rightarrow> 'd change_stream_cursor" where
  "processBatch cur c =
     (case desc_postBatchResumeToken cur of
        None \<Rightarrow> c
      | Some token \<Rightarrow>
          (let c' = c\<lparr>postBatchResumeToken := Some token\<rparr>
           in if length (docs cur) = 0 then set_resumeToken (Some token) c' else c'))"

text \<open>
  \<open>ChangeStreamAggregateRawResult\<close>, and the callback that \<open>_initialize\<close> gives to
  \<open>executeOperation\<close>: \<open>srv\<close> is \<open>aggregateOperation.server\<close>, the result is the state with
  the arguments of the callback of \<open>_initialize\<close>.
\<close>

record 'd raw_result =
  raw_cursor :: "'d cursor_desc"
  raw_operationTime :: "bson option"

definition initialize ::
  "session option \<Rightarrow> server \<Rightarrow> error option \<Rightarrow> 'd raw_result option \<Rightarrow> 'd change_stream_cursor \<Rightarrow>
     'd change_stream_cursor \<times> error option \<times> 'd exec_result option" where
  "initialize sess srv err response c =
     (case response of
        None \<Rightarrow> (c, err, None)
      | Some r \<Rightarrow>
          if err \<noteq> None then (c, err, None)
          else
            (let c1 = (if startAtOperationTime c = None \<and> resumeAfter c = None
                          \<and> startAfter c = None \<and> maxWireVersion srv \<ge> 7
                       then c\<lparr>startAtOperationTime := raw_operationTime r\<rparr>
                       else c);
                 c2 = processBatch (raw_cursor r) c1;
                 c3 = perform Emit_RESPONSE (perform Emit_INIT c2)
             in (c3, None,
                 Some \<lparr>res_server = srv, res_session = sess,
                       res_response = CursorResponse (raw_cursor r) (raw_operationTime r)\<rparr>)))"

text \<open>
  The callback that the override of \<open>_getMore\<close> gives to \<open>super._getMore\<close>, which calls it
  with an error or with a response.
\<close>

definition getMore ::
  "error + 'd cursor_desc \<Rightarrow> 'd change_stream_cursor \<Rightarrow>
     'd change_stream_cursor \<times> (error + 'd cursor_desc)" where
  "getMore reply c =
     (case reply of
        Inl err \<Rightarrow> (c, Inl err)
      | Inr response \<Rightarrow>
          (perform Emit_RESPONSE (perform Emit_MORE (processBatch response c)), Inr response))"

text \<open>
  The states a \<open>ChangeStreamCursor\<close> can be in: built by the constructor and changed by the
  methods of the class, with the tokens the change stream passes (the \<open>_id\<close> of a change,
  which it has checked to be present), or by a method inherited from \<open>AbstractCursor\<close>,
  which leaves the fields of the subclass as they are.
\<close>

inductive reachable :: "'d change_stream_cursor \<Rightarrow> bool" where
  constructed: "reachable (new_ChangeStreamCursor lb namespace sess opts)"
| inherited: "reachable c \<Longrightarrow> abstract_cursor.more c' = abstract_cursor.more c \<Longrightarrow> reachable c'"
| cached: "reachable c \<Longrightarrow> reachable (cacheResumeToken (Some token) c)"
| initialized: "reachable c \<Longrightarrow> reachable (fst (initialize sess srv err response c))"
| got_more: "reachable c \<Longrightarrow> reachable (fst (getMore reply c))"

code_pred reachable .

text \<open>Which of the three resume options an options object holds.\<close>

definition resume_keys :: "options \<Rightarrow> string list" where
  "resume_keys r =
     filter (\<lambda>name. r name \<noteq> None) [''resumeAfter'', ''startAfter'', ''startAtOperationTime'']"

definition options_guarded :: "'d change_stream_cursor \<Rightarrow> bool" where
  "options_guarded c =
     (resume_keys (options c) = [] \<or> resumeToken c \<noteq> None \<or> startAtOperationTime c \<noteq> None)"

text \<open>A cursor resumed after a token, and the server's answer to its first command.\<close>

definition resumed_cursor :: "nat change_stream_cursor" where
  "resumed_cursor = new_ChangeStreamCursor False ''db.c'' None [''resumeAfter'' \<mapsto> Bson 1]"

definition first_response :: "nat raw_result" where
  "first_response =
     \<lparr>raw_cursor = \<lparr>desc_id = NumberId 42, desc_ns = Some ''db.c'', docs = [],
                     desc_postBatchResumeToken = None\<rparr>,
      raw_operationTime = Some (Bson 99)\<rparr>"

text \<open>A cursor started after a token that has since delivered a change with token 5.\<close>

definition started_cursor :: "nat change_stream_cursor" where
  "started_cursor =
     cacheResumeToken (Some (Bson 5))
       (new_ChangeStreamCursor False ''db.c'' None [''startAfter'' \<mapsto> Bson 1])"

section \<open>ChangeStream\<close>

datatype mode = ModeUnset | Iterator | Emitter

text \<open>A \<open>ChangeStreamDocument\<close>: its \<open>_id\<close>, which may be missing, and the rest.\<close>

datatype change = Change (doc_id: "bson option") (payload: nat)

text \<open>
  Callbacks of the consumer are named by numbers. A \<open>request\<close> is a function waiting in
  the resume queue or handed to \<open>_getCursor\<close>: the continuation of \<open>next\<close>, \<open>hasNext\<close> or
  \<open>tryNext\<close> with the consumer's callback, or the closure \<open>() => this.next(cb)\<close> that
  \<open>next\<close> queues when its cursor fails.
\<close>

type_synonym callback = nat

datatype request = NextCont callback | HasNextCont callback | TryNextCont callback | RetryNext callback

text \<open>
  What the change stream does towards its consumer, oldest first: an event it emits, an
  event of its cursor that it emits again, a consumer callback called with
  \<open>(err, change)\<close>, a request called with \<open>(err, cursor)\<close> (the flag tells whether a cursor
  was passed).
\<close>

datatype notice =
    Emit_CHANGE change
  | Emit_ERROR error
  | Forwarded effect
  | Called callback "error option" "change option"
  | Handed request "error option" bool

record change_stream =
  cs_options :: options
  namespace :: string
  topology_loadBalanced :: bool
  cursor :: "change change_stream_cursor option"
  kResumeQueue :: "request list"
  kCursorStream :: bool
  cs_kClosed :: bool
  kMode :: mode
  change_listeners :: nat
  notices :: "notice list"

definition NO_RESUME_TOKEN_ERROR :: string where
  "NO_RESUME_TOKEN_ERROR = ''A change stream document has been received that lacks a resume token (_id).''"

definition NO_CURSOR_ERROR :: string where
  "NO_CURSOR_ERROR = ''ChangeStream has no cursor''"

definition CHANGESTREAM_CLOSED_ERROR :: string where
  "CHANGESTREAM_CLOSED_ERROR = ''ChangeStream is closed''"

definition notify :: "notice \<Rightarrow> change_stream \<Rightarrow> change_stream" where
  "notify x cs = cs\<lparr>notices := notices cs @ [x]\<rparr>"

text \<open>
  \<open>_createChangeStreamCursor\<close> subscribes the change stream to the events
  \<open>resumeTokenChanged\<close>, \<open>end\<close> and \<open>close\<close> of the cursor and emits them again:
  \<open>forward old new\<close> does so for the events the cursor emitted between two states.
\<close>

fun is_forwarded :: "effect \<Rightarrow> bool" where
  "is_forwarded Emit_CLOSE = True"
| "is_forwarded (Emit_RESUME_TOKEN_CHANGED t) = True"
| "is_forwarded _ = False"

definition forward ::
  "change change_stream_cursor \<Rightarrow> change change_stream_cursor \<Rightarrow> change_stream \<Rightarrow> change_stream" where
  "forward old new cs =
     cs\<lparr>notices := notices cs
          @ map Forwarded (filter is_forwarded (drop (length (effects old)) (effects new)))\<rparr>"

definition setIsEmitter :: "change_stream \<Rightarrow> error + change_stream" where
  "setIsEmitter cs =
     (if kMode cs = Iterator
      then Inl (MongoAPIError ''ChangeStream cannot be used as an EventEmitter after being used as an iterator'')
      else Inr (cs\<lparr>kMode := Emitter\<rparr>))"

definition setIsIterator :: "change_stream \<Rightarrow> error + change_stream" where
  "setIsIterator cs =
     (if kMode cs = Emitter
      then Inl (MongoAPIError ''ChangeStream cannot be used as an iterator after being used as an EventEmitter'')
      else Inr (cs\<lparr>kMode := Iterator\<rparr>))"

text \<open>
  \<open>_streamEvents\<close>: after the mode guard the stream of the cursor is kept in
  \<open>kCursorStream\<close> and listened to.
\<close>

definition streamEvents :: "change_stream \<Rightarrow> error + change_stream" where
  "streamEvents cs =
     (case setIsEmitter cs of
        Inl e \<Rightarrow> Inl e
      | Inr cs' \<Rightarrow> Inr (cs'\<lparr>kCursorStream := True\<rparr>))"

text \<open>
  \<open>changeStream.on('change', listener)\<close>. The emitter first runs the handler of
  \<open>newListener\<close> that the constructor installs; when the handler throws, the exception
  leaves \<open>on\<close> and the listener is not added.
\<close>

definition on_change :: "change_stream \<Rightarrow> error + change_stream" where
  "on_change cs =
     (if cursor cs \<noteq> None \<and> change_listeners cs = 0
      then (case streamEvents cs of
              Inl e \<Rightarrow> Inl e
            | Inr cs' \<Rightarrow> Inr (cs'\<lparr>change_listeners := Suc (change_listeners cs')\<rparr>))
      else Inr (cs\<lparr>change_listeners := Suc (change_listeners cs)\<rparr>))"

definition createChangeStreamCursor ::
  "options \<Rightarrow> change_stream \<Rightarrow> error + (change change_stream_cursor \<times> change_stream)" where
  "createChangeStreamCursor opts cs =
     (let changeStreamCursor =
            new_ChangeStreamCursor (topology_loadBalanced cs) (namespace cs) None
              (filterOptions opts CURSOR_OPTIONS)
      in if change_listeners cs > 0
         then (case streamEvents cs of
                 Inl e \<Rightarrow> Inl e
               | Inr cs' \<Rightarrow> Inr (changeStreamCursor, cs'))
         else Inr (changeStreamCursor, cs))"

definition endStream :: "change_stream \<Rightarrow> change_stream" where
  "endStream cs = cs\<lparr>kCursorStream := False\<rparr>"

text \<open>\<open>ChangeStream.close\<close>; the state is the one its callback sees.\<close>

definition cs_close :: "change_stream \<Rightarrow> change_stream" where
  "cs_close cs =
     (let cs1 = cs\<lparr>cs_kClosed := True\<rparr>
      in case cursor cs1 of
           None \<Rightarrow> cs1
         | Some c \<Rightarrow> (endStream (forward c (close c) cs1))\<lparr>cursor := None\<rparr>)"

definition closeWithError :: "error \<Rightarrow> callback option \<Rightarrow> change_stream \<Rightarrow> change_stream" where
  "closeWithError err cb cs =
     (case cb of
        None \<Rightarrow> cs_close (notify (Emit_ERROR err) cs)
      | Some f \<Rightarrow> notify (Called f (Some err) None) (cs_close cs))"

definition processNewChange :: "change option \<Rightarrow> callback option \<Rightarrow> change_stream \<Rightarrow> change_stream" where
  "processNewChange chg cb cs =
     (if cs_kClosed cs then
        (case cb of
           None \<Rightarrow> cs
         | Some f \<Rightarrow> notify (Called f (Some (MongoAPIError CHANGESTREAM_CLOSED_ERROR)) None) cs)
      else
        (case chg of
           None \<Rightarrow> closeWithError (MongoRuntimeError CHANGESTREAM_CLOSED_ERROR) cb cs
         | Some d \<Rightarrow>
             (case doc_id d of
                None \<Rightarrow> closeWithError (MongoChangeStreamError NO_RESUME_TOKEN_ERROR) cb cs
              | Some token \<Rightarrow>
                  (let cs1 = (case cursor cs of
                                None \<Rightarrow> cs
                              | Some c \<Rightarrow>
                                  forward c (cacheResumeToken (Some token) c)
                                    (cs\<lparr>cursor := Some (cacheResumeToken (Some token) c)\<rparr>));
                       cs2 = cs1\<lparr>cs_options := (cs_options cs1)(''startAtOperationTime'' := None)\<rparr>
                   in case cb of
                        None \<Rightarrow> notify (Emit_CHANGE d) cs2
                      | Some f \<Rightarrow> notify (Called f None (Some d)) cs2))))"

definition getCursor :: "request \<Rightarrow> change_stream \<Rightarrow> change_stream" where
  "getCursor req cs =
     (if cs_kClosed cs
      then notify (Handed req (Some (MongoAPIError CHANGESTREAM_CLOSED_ERROR)) False) cs
      else if cursor cs \<noteq> None then notify (Handed req None True) cs
      else cs\<lparr>kResumeQueue := kResumeQueue cs @ [req]\<rparr>)"

text \<open>
  \<open>_processResumeQueue\<close>. The queue is a \<open>Denque\<close>: \<open>push\<close> appends at the end and \<open>pop\<close>
  takes from the end.
\<close>

function processResumeQueue :: "error option \<Rightarrow> change_stream \<Rightarrow> change_stream" where
  "processResumeQueue err cs =
     (if kResumeQueue cs = [] then cs
      else
        (let request = last (kResumeQueue cs);
             cs1 = cs\<lparr>kResumeQueue := butlast (kResumeQueue cs)\<rparr>
         in if err = None \<and> cs_kClosed cs1
            then notify (Handed request (Some (MongoAPIError CHANGESTREAM_CLOSED_ERROR)) False) cs1
            else if err = None \<and> cursor cs1 = None
            then notify (Handed request (Some (MongoChangeStreamError NO_CURSOR_ERROR)) False) cs1
            else processResumeQueue err (notify (Handed request err (cursor cs1 \<noteq> None)) cs1)))"
  by pat_completeness auto
termination
  by (relation "measure (\<lambda>(err, cs). length (kResumeQueue cs))") (auto simp: notify_def)

declare processResumeQueue.simps [simp del]

text \<open>
  \<open>_processError\<close>, in the two parts that the wait for the topology separates.
  \<open>processError\<close> runs up to the call of \<open>_waitForTopologyConnected\<close>; \<open>resumable\<close> is the
  value of \<open>isResumableError(error, maxWireVersion(cursor.server))\<close>, and the second
  component is the old cursor that the waiting closure holds, if the stream waits.
  \<open>resumeWithCursor\<close> and \<open>unresumableError\<close> are its two local functions.
\<close>

definition resumeWithCursor :: "change change_stream_cursor \<Rightarrow> change_stream \<Rightarrow> change_stream" where
  "resumeWithCursor newCursor cs = processResumeQueue None (cs\<lparr>cursor := Some newCursor\<rparr>)"

definition unresumableError :: "error \<Rightarrow> callback option \<Rightarrow> change_stream \<Rightarrow> change_stream" where
  "unresumableError err cb cs =
     processResumeQueue (Some err)
       (cs_close (case cb of None \<Rightarrow> notify (Emit_ERROR err) cs | Some f \<Rightarrow> cs))"

definition processError ::
  "bool \<Rightarrow> error \<Rightarrow> callback option \<Rightarrow> change_stream \<Rightarrow>
     change_stream \<times> change change_stream_cursor option" where
  "processError resumable err cb cs =
     (if cs_kClosed cs then
        ((case cb of
            None \<Rightarrow> cs
          | Some f \<Rightarrow> notify (Called f (Some (MongoAPIError CHANGESTREAM_CLOSED_ERROR)) None) cs),
         None)
      else
        (case cursor cs of
           None \<Rightarrow> (closeWithError err cb cs, None)
         | Some c \<Rightarrow>
             if resumable
             then (forward c (close c) (endStream (cs\<lparr>cursor := None\<rparr>)), Some (close c))
             else (closeWithError err cb cs, None)))"

text \<open>
  The callback of \<open>_waitForTopologyConnected\<close>: \<open>waited\<close> is its error, \<open>wire\<close> the value
  of \<open>maxWireVersion\<close> for the server of the old cursor, and \<open>probe\<close> gives, for the new
  cursor, its state after \<open>hasNext\<close> and the error of \<open>hasNext\<close>.
\<close>

definition topologyConnected ::
  "error option \<Rightarrow> nat \<Rightarrow> (change change_stream_cursor \<Rightarrow> change change_stream_cursor \<times> error option) \<Rightarrow>
     change change_stream_cursor \<Rightarrow> callback option \<Rightarrow> change_stream \<Rightarrow> error + change_stream" where
  "topologyConnected waited wire probe old cb cs =
     (case waited of
        Some e \<Rightarrow> Inr (unresumableError e cb cs)
      | None \<Rightarrow>
          (case createChangeStreamCursor (resumeOptions wire old) cs of
             Inl thrown \<Rightarrow> Inl thrown
           | Inr (newCursor, cs1) \<Rightarrow>
               (case cb of
                  None \<Rightarrow> Inr (resumeWithCursor newCursor cs1)
                | Some f \<Rightarrow>
                    (case probe newCursor of
                       (probed, Some e) \<Rightarrow> Inr (unresumableError e cb cs1)
                     | (probed, None) \<Rightarrow> Inr (resumeWithCursor probed cs1)))))"

text \<open>
  \<open>ChangeStream.next\<close>, \<open>hasNext\<close> and \<open>tryNext\<close> up to the moment \<open>_getCursor\<close> hands the
  cursor to their continuation or queues it; \<open>Inl\<close> is the exception of the mode guard.
\<close>

definition cs_next :: "callback \<Rightarrow> change_stream \<Rightarrow> error + change_stream" where
  "cs_next cb cs =
     (case setIsIterator cs of Inl e \<Rightarrow> Inl e | Inr cs' \<Rightarrow> Inr (getCursor (NextCont cb) cs'))"

definition cs_hasNext :: "callback \<Rightarrow> change_stream \<Rightarrow> error + change_stream" where
  "cs_hasNext cb cs =
     (case setIsIterator cs of Inl e \<Rightarrow> Inl e | Inr cs' \<Rightarrow> Inr (getCursor (HasNextCont cb) cs'))"

definition cs_tryNext :: "callback \<Rightarrow> change_stream \<Rightarrow> error + change_stream" where
  "cs_tryNext cb cs =
     (case setIsIterator cs of Inl e \<Rightarrow> Inl e | Inr cs' \<Rightarrow> Inr (getCursor (TryNextCont cb) cs'))"

text \<open>
  The continuation of \<open>next\<close> once \<open>cursor.next\<close> has called back with an error: the
  retry is queued and the error processed.
\<close>

definition next_failed ::
  "bool \<Rightarrow> error \<Rightarrow> callback \<Rightarrow> change_stream \<Rightarrow> change_stream \<times> change change_stream_cursor option" where
  "next_failed resumable err cb cs =
     processError resumable err (Some cb) (cs\<lparr>kResumeQueue := kResumeQueue cs @ [RetryNext cb]\<rparr>)"

text \<open>The constructor of \<open>ChangeStream\<close> on a collection, without listeners yet.\<close>

definition new_ChangeStream :: "bool \<Rightarrow> string \<Rightarrow> options \<Rightarrow> change_stream" where
  "new_ChangeStream lb ns opts =
     \<lparr>cs_options = opts, namespace = ns, topology_loadBalanced = lb,
      cursor = Some (new_ChangeStreamCursor lb ns None (filterOptions opts CURSOR_OPTIONS)),
      kResumeQueue = [], kCursorStream = False, cs_kClosed = False, kMode = ModeUnset,
      change_listeners = 0, notices = []\<rparr>"

text \<open>
  The operations on a change stream, as a consumer and the event loop interleave them.
  \<open>step\<close> gives the exception thrown, if any, and the state after; an operation that
  throws leaves the state as it was.
\<close>

datatype cs_op =
    OpNext callback
  | OpHasNext callback
  | OpTryNext callback
  | OpOnChange
  | OpStreamEvents
  | OpClose
  | OpNewChange "change option" "callback option"
  | OpNextFailed bool error callback
  | OpError bool error "callback option"
  | OpTopologyConnected "error option" nat
      "change change_stream_cursor \<Rightarrow> change change_stream_cursor \<times> error option"
      "change change_stream_cursor" "callback option"

definition thrown_or_state :: "change_stream \<Rightarrow> error + change_stream \<Rightarrow> error option \<times> change_stream" where
  "thrown_or_state cs r = (case r of Inl e \<Rightarrow> (Some e, cs) | Inr cs' \<Rightarrow> (None, cs'))"

fun step :: "cs_op \<Rightarrow> change_stream \<Rightarrow> error option \<times> change_stream" where
  "step (OpNext cb) cs = thrown_or_state cs (cs_next cb cs)"
| "step (OpHasNext cb) cs = thrown_or_state cs (cs_hasNext cb cs)"
| "step (OpTryNext cb) cs = thrown_or_state cs (cs_tryNext cb cs)"
| "step OpOnChange cs = thrown_or_state cs (on_change cs)"
| "step OpStreamEvents cs = thrown_or_state cs (streamEvents cs)"
| "step OpClose cs = (None, cs_close cs)"
| "step (OpNewChange chg cb) cs = (None, processNewChange chg cb cs)"
| "step (OpNextFailed resumable err cb) cs = (None, fst (next_failed resumable err cb cs))"
| "step (OpError resumable err cb) cs = (None, fst (processError resumable err cb cs))"
| "step (OpTopologyConnected waited wire probe old cb) cs =
     thrown_or_state cs (topologyConnected waited wire probe old cb cs)"

fun run :: "cs_op list \<Rightarrow> change_stream \<Rightarrow> change_stream" where
  "run [] cs = cs"
| "run (x # xs) cs = run xs (snd (step x cs))"

fun is_iterator_op :: "cs_op \<Rightarrow> bool" where
  "is_iterator_op (OpNext cb) = True"
| "is_iterator_op (OpHasNext cb) = True"
| "is_iterator_op (OpTryNext cb) = True"
| "is_iterator_op _ = False"

text \<open>
  The operations that go through \<open>_streamEvents\<close>: the call itself, and the attachment of
  a first \<open>change\<close> listener while the stream has a cursor.
\<close>

fun enters_emitter :: "cs_op \<Rightarrow> change_stream \<Rightarrow> bool" where
  "enters_emitter OpStreamEvents cs = True"
| "enters_emitter OpOnChange cs = (cursor cs \<noteq> None \<and> change_listeners cs = 0)"
| "enters_emitter _ cs = False"

definition EMITTER_AFTER_ITERATOR :: error where
  "EMITTER_AFTER_ITERATOR =
     MongoAPIError ''ChangeStream cannot be used as an EventEmitter after being used as an iterator''"

definition ITERATOR_AFTER_EMITTER :: error where
  "ITERATOR_AFTER_EMITTER =
     MongoAPIError ''ChangeStream cannot be used as an iterator after being used as an EventEmitter''"

text \<open>
  A change stream on \<open>db.c\<close> in four moments: new; after \<open>next\<close> (callback 1) whose
  cursor failed with a network error, waiting for the topology with the old cursor in
  hand; after a second \<open>next\<close> (callback 2) and \<open>close()\<close> during the wait; and after the
  topology has connected and \<open>hasNext\<close> has succeeded on the new cursor.
\<close>

definition stream0 :: change_stream where
  "stream0 = new_ChangeStream False ''db.c'' Map.empty"

definition waiting :: "change_stream \<times> change change_stream_cursor option" where
  "waiting = next_failed True MongoNetworkError 1 (run [OpNext 1] stream0)"

definition closed_while_waiting :: change_stream where
  "closed_while_waiting = run [OpNext 2, OpClose] (fst waiting)"

definition after_resume :: "error + change_stream" where
  "after_resume =
     (case snd waiting of
        None \<Rightarrow> Inr closed_while_waiting
      | Some old \<Rightarrow> topologyConnected None 0 (\<lambda>c. (c, None)) old (Some 1) closed_while_waiting)"

fun is_Handed :: "notice \<Rightarrow> bool" where
  "is_Handed (Handed req err b) = True"
| "is_Handed _ = False"

text \<open>A reply without documents that carries a post-batch resume token.\<close>

definition empty_batch :: "nat cursor_desc" where
  "empty_batch = \<lparr>desc_id = NumberId 42, desc_ns = None, docs = [],
                  desc_postBatchResumeToken = Some (Bson 8)\<rparr>"

section \<open>Properties of closing and iterating a cursor\<close>

text \<open>
  C7. The claim is that a sequence of \<open>close()\<close> calls emits \<open>close\<close> at most once and
  that every call after the first neither kills the server cursor again nor emits again.
  On a cursor with a live server cursor the kill path of \<open>cleanupCursor\<close> leaves the id
  as it is and \<open>completeCleanup\<close> emits without looking at \<open>needsToEmitClosed\<close>: two calls
  of \<open>close\<close> send \<open>killCursors\<close> twice and emit \<open>close\<close> twice.
\<close>

theorem close_twice_emits_twice:
  "effects (close (close live_cursor)) =
     [KillCursors (LongObj 42), Emit_CLOSE, KillCursors (LongObj 42), Emit_CLOSE]
   \<and> count_effect Emit_CLOSE (close (close live_cursor)) = 2
   \<and> count_effect (KillCursors (LongObj 42)) (close (close live_cursor)) = 2"
  by (simp add: close_def cleanupCursor_def completeCleanup_def releaseSession_def
      perform_def live_cursor_def count_effect_def)

text \<open>
  C8. The claim is that \<open>next\<close> after \<open>close()\<close> returns end-of-stream on every cursor.
  On a cursor that was never iterated \<open>close()\<close> sets the id to \<open>Long.ZERO\<close>, and
  \<open>next\<close> then fails with \<open>MongoCursorExhaustedError\<close>.
\<close>

theorem close_then_next_exhausted:
  "cursor_next [] (close fresh_cursor) =
     (close fresh_cursor, [], Returned (Some MongoCursorExhaustedError) None)"
  by (simp add: cursor_next_def close_def cleanupCursor_def releaseSession_def perform_def
      fresh_cursor_def)

lemma next_fn_closed:
  "kClosed c \<Longrightarrow> next_fn blocking script c = (c, script, Returned None None)"
  by (subst next_fn.simps) simp

lemma close_live:
  assumes "has_live_server_cursor c"
  shows "kClosed (close c)" "kDocuments (close c) = kDocuments c" "kId (close c) = kId c"
  using assms
  by (auto simp: has_live_server_cursor_def close_def cleanupCursor_def completeCleanup_def
      releaseSession_def perform_def split: option.splits)

text \<open>
  C8, as amended. A cursor that has a live server cursor when \<open>close()\<close> is called keeps
  its id; after \<open>close()\<close> a call of \<open>next\<close> finds the cursor closed and returns
  end-of-stream (\<open>null\<close>, no error), and the buffered documents are still there.
\<close>

theorem close_then_next_live:
  assumes "has_live_server_cursor c"
  shows "cursor_next script (close c) = (close c, script, Returned None None)
         \<and> kDocuments (close c) = kDocuments c"
proof -
  from assms obtain i where i: "kId c = Some i" "\<not> isZero i"
    by (auto simp: has_live_server_cursor_def split: option.splits)
  then have "kId (close c) \<noteq> Some LongZERO"
    using close_live(3)[OF assms] by auto
  then show ?thesis
    using close_live(1,2)[OF assms] by (simp add: cursor_next_def next_fn_closed)
qed


lemma next_calls_add:
  "next_calls (m + n) script c =
     (case next_calls m script c of
        (c', script', rs) \<Rightarrow>
          (case next_calls n script' c' of
             (c'', script'', rs') \<Rightarrow> (c'', script'', rs @ rs')))"
  by (induction m arbitrary: script c) (auto split: prod.splits)

lemma releaseSession_fields:
  "kClosed (releaseSession c) = kClosed c"
  "kId (releaseSession c) = kId c"
  "kDocuments (releaseSession c) = kDocuments c"
  "kTransform (releaseSession c) = kTransform c"
  "filter is_GetMore (effects (releaseSession c)) = filter is_GetMore (effects c)"
  by (auto simp: releaseSession_def perform_def split: option.splits)

lemma isZero_toLong: "isZero (toLong w) \<Longrightarrow> toLong w = LongObj 0"
  by (cases w) (auto simp: fromNumber_def)

lemma next_buffered:
  assumes "\<not> kClosed c" "kId c = Some (LongObj 0)" "kDocuments c = doc # ds"
  shows "cursor_next script c = (c\<lparr>kDocuments := ds\<rparr>, script, Returned None (Some (transformed c doc)))"
  using assms
  by (subst cursor_next_def, subst next_fn.simps) (simp add: nextDocument_def transformed_def)

lemma drain_buffer:
  assumes "\<not> kClosed c" "kId c = Some (LongObj 0)" "kDocuments c = ds"
  shows "next_calls (length ds) script c =
           (c\<lparr>kDocuments := []\<rparr>, script, map (\<lambda>x. Returned None (Some (transformed c x))) ds)"
  using assms
proof (induction ds arbitrary: c)
  case Nil
  then show ?case by simp
next
  case (Cons doc ds)
  let ?c1 = "c\<lparr>kDocuments := ds\<rparr>"
  have step: "cursor_next script c = (?c1, script, Returned None (Some (transformed c doc)))"
    using Cons.prems by (rule next_buffered)
  have "next_calls (length ds) script ?c1 =
          (?c1\<lparr>kDocuments := []\<rparr>, script, map (\<lambda>x. Returned None (Some (transformed ?c1 x))) ds)"
    using Cons.prems by (intro Cons.IH) simp_all
  then show ?case
    using step by (simp add: transformed_def)
qed

lemma next_at_end:
  assumes "\<not> kClosed c" "kId c = Some (LongObj 0)" "kDocuments c = []"
  shows "cursor_next script c = (cleanupCursor None c, script, Returned None None)"
  using assms
  by (subst cursor_next_def, subst next_fn.simps) (simp add: cursorIsDead_def)

lemma next_getMore_dead:
  assumes "\<not> kClosed c" "kDocuments c = []" "kId c = Some i" "\<not> isZero i" "kServer c = Some srv"
    and "isZero (toLong (desc_id d))" "docs d = doc # ds"
  shows "\<exists>c1. cursor_next (GotMore None (Some d) # rest) c =
             (c1, rest, Returned None (Some (transformed c doc)))
           \<and> \<not> kClosed c1 \<and> kId c1 = Some (LongObj 0) \<and> kDocuments c1 = ds
           \<and> kTransform c1 = kTransform c \<and> getMore_count c1 = Suc (getMore_count c)"
proof -
  have nz: "i \<noteq> LongZERO" using assms(4) by auto
  have z: "toLong (desc_id d) = LongObj 0" using assms(6) by (rule isZero_toLong)
  show ?thesis
    using assms(1,2,3,5,7) nz z assms(4)
    apply (subst cursor_next_def, subst next_fn.simps)
    apply (simp add: cursorIsDead_def Let_def)
    apply (simp add: cleanupCursor_def nextDocument_def releaseSession_fields transformed_def
        getMore_count_def perform_def split: option.splits)
    done
qed

text \<open>
  C9. A \<open>getMore\<close> answered with cursor id 0 and a non-empty \<open>nextBatch\<close>: the call of
  \<open>next\<close> that sent it and the following ones return the documents of the batch in
  order, the call after the last document returns end-of-stream, and in all of them
  one \<open>getMore\<close> is sent and no other reply is consumed.
\<close>

theorem getMore_zero_id_drains:
  assumes "\<not> kClosed c" "kDocuments c = []" "kId c = Some i" "\<not> isZero i" "kServer c = Some srv"
    and "isZero (toLong (desc_id d))" "docs d \<noteq> []"
  shows "\<exists>c'. next_calls (Suc (length (docs d))) (GotMore None (Some d) # rest) c =
             (c', rest, map (\<lambda>x. Returned None (Some (transformed c x))) (docs d) @ [Returned None None])
           \<and> getMore_count c' = Suc (getMore_count c)"
proof -
  from assms(7) obtain doc ds where ds: "docs d = doc # ds" by (cases "docs d") auto
  from next_getMore_dead[OF assms(1-6) ds, of rest]
  obtain c1 where c1: "cursor_next (GotMore None (Some d) # rest) c =
             (c1, rest, Returned None (Some (transformed c doc)))"
    "\<not> kClosed c1" "kId c1 = Some (LongObj 0)" "kDocuments c1 = ds"
    "kTransform c1 = kTransform c" "getMore_count c1 = Suc (getMore_count c)"
    by blast
  let ?c2 = "c1\<lparr>kDocuments := []\<rparr>"
  have d: "next_calls (length ds) rest c1 =
             (?c2, rest, map (\<lambda>x. Returned None (Some (transformed c1 x))) ds)"
    using c1(2,3,4) by (rule drain_buffer)
  have e: "cursor_next rest ?c2 = (cleanupCursor None ?c2, rest, Returned None None)"
    using c1(2,3) by (intro next_at_end) simp_all
  have t: "transformed c1 = transformed c"
    using c1(5) by (simp add: transformed_def fun_eq_iff)
  have g: "getMore_count (cleanupCursor None ?c2) = getMore_count c1"
    using c1(3)
    by (simp add: cleanupCursor_def getMore_count_def releaseSession_fields perform_def
        split: option.splits)
  have "next_calls (Suc (length ds)) rest c1 =
          (cleanupCursor None ?c2, rest,
           map (\<lambda>x. Returned None (Some (transformed c x))) ds @ [Returned None None])"
    using next_calls_add[of "length ds" 1 rest c1] d e t by simp
  then show ?thesis
    using c1(1) c1(6) g ds by simp
qed


theorem close_then_next_live_witness:
  "has_live_server_cursor live_cursor
   \<and> cursor_next [] (close live_cursor) = (close live_cursor, [], Returned None None)
   \<and> kDocuments (close live_cursor) = [1, 2]"
proof -
  have h: "has_live_server_cursor live_cursor"
    by (simp add: has_live_server_cursor_def live_cursor_def)
  show ?thesis
    using h close_then_next_live [OF h, of "[]"] by (simp add: live_cursor_def)
qed

theorem getMore_zero_id_drains_witness:
  "\<exists>c'. next_calls 4 [GotMore None (Some last_batch)] drained_cursor =
          (c', [], [Returned None (Some 7), Returned None (Some 8), Returned None (Some 9),
                    Returned None None])
        \<and> getMore_count c' = 1"
proof -
  have h: "\<not> kClosed drained_cursor" "kDocuments drained_cursor = []"
    "kId drained_cursor = Some (LongObj 42)" "\<not> isZero (LongObj 42)"
    "kServer drained_cursor = Some (Server 13)"
    "isZero (toLong (desc_id last_batch))" "docs last_batch \<noteq> []"
    by (simp_all add: drained_cursor_def live_cursor_def last_batch_def fromNumber_def)
  have t: "transformed drained_cursor = (\<lambda>x. x)"
    by (simp add: transformed_def drained_cursor_def live_cursor_def fun_eq_iff)
  have g: "getMore_count drained_cursor = 0"
    by (simp add: getMore_count_def drained_cursor_def live_cursor_def)
  have n: "Suc (length (docs last_batch)) = 4"
    by (simp add: last_batch_def)
  have b: "docs last_batch = [7, 8, 9]"
    by (simp add: last_batch_def)
  have "\<exists>c'. next_calls 4 [GotMore None (Some last_batch)] drained_cursor =
          (c', [], map (\<lambda>x. Returned None (Some x)) (docs last_batch) @ [Returned None None])
        \<and> getMore_count c' = Suc 0"
    using getMore_zero_id_drains [OF h, of "[]"] unfolding n t g .
  then show ?thesis
    unfolding b by simp
qed

section \<open>Properties of the change stream cursor\<close>

lemma resume_keys_empty:
  "resume_keys r = [] \<longleftrightarrow>
     r ''resumeAfter'' = None \<and> r ''startAfter'' = None \<and> r ''startAtOperationTime'' = None"
  by (simp add: resume_keys_def)

lemma guarded_new: "options_guarded (new_ChangeStreamCursor lb ns sess opts)"
  by (auto simp: options_guarded_def new_ChangeStreamCursor_def set_resumeToken_def perform_def
      resume_keys_empty Let_def)

lemma more_options:
  "abstract_cursor.more c' = abstract_cursor.more (c :: 'd change_stream_cursor) \<Longrightarrow> options c' = options c"
  by (cases c, cases c') simp

lemma more_resumeToken:
  "abstract_cursor.more c' = abstract_cursor.more (c :: 'd change_stream_cursor) \<Longrightarrow> resumeToken c' = resumeToken c"
  by (cases c, cases c') simp

lemma more_startAtOperationTime:
  "abstract_cursor.more c' = abstract_cursor.more (c :: 'd change_stream_cursor) \<Longrightarrow>
     startAtOperationTime c' = startAtOperationTime c"
  by (cases c, cases c') simp

lemma guarded_inherited:
  assumes "options_guarded c" and m: "abstract_cursor.more c' = abstract_cursor.more c"
  shows "options_guarded c'"
  using assms(1) more_options[OF m] more_resumeToken[OF m] more_startAtOperationTime[OF m]
  unfolding options_guarded_def by simp

lemma guarded_cached: "options_guarded c \<Longrightarrow> options_guarded (cacheResumeToken (Some token) c)"
  by (auto simp: options_guarded_def cacheResumeToken_def set_resumeToken_def perform_def)

lemma guarded_processBatch: "options_guarded c \<Longrightarrow> options_guarded (processBatch cur c)"
  by (auto simp: options_guarded_def processBatch_def set_resumeToken_def perform_def Let_def
      split: option.splits)

lemma guarded_initialize:
  "options_guarded c \<Longrightarrow> options_guarded (fst (initialize sess srv err response c))"
proof -
  assume g: "options_guarded c"
  have a: "options_guarded (c\<lparr>startAtOperationTime := ts\<rparr>)"
    if "startAtOperationTime c = None" for ts
    using g that by (auto simp: options_guarded_def)
  have b: "options_guarded (perform x d)" if "options_guarded d" for x and d :: "'d change_stream_cursor"
    using that by (simp add: options_guarded_def perform_def)
  show ?thesis
    using g a by (auto simp: initialize_def Let_def b guarded_processBatch split: option.splits)
qed

lemma guarded_getMore: "options_guarded c \<Longrightarrow> options_guarded (fst (getMore reply c))"
proof -
  have b: "options_guarded (perform x d)" if "options_guarded d" for x and d :: "'d change_stream_cursor"
    using that by (simp add: options_guarded_def perform_def)
  assume "options_guarded c"
  then show ?thesis
    by (auto simp: getMore_def b guarded_processBatch split: sum.splits)
qed

lemma reachable_guarded: "reachable c \<Longrightarrow> options_guarded c"
  by (induction rule: reachable.induct)
    (auto intro: guarded_new guarded_inherited guarded_cached guarded_initialize guarded_getMore)

lemma filter_resume_key [simp]:
  "filterOptions opts CURSOR_OPTIONS ''resumeAfter'' = opts ''resumeAfter''"
  "filterOptions opts CURSOR_OPTIONS ''startAfter'' = opts ''startAfter''"
  "filterOptions opts CURSOR_OPTIONS ''startAtOperationTime'' = opts ''startAtOperationTime''"
  by (simp_all add: filterOptions_def CURSOR_OPTIONS_def CHANGE_STREAM_OPTIONS_def)

text \<open>
  C3. In every state the cursor can reach, the options for a resume hold at most one of
  \<open>resumeAfter\<close>, \<open>startAfter\<close> and \<open>startAtOperationTime\<close>. With a resume token it is
  \<open>startAfter\<close> when the original options had \<open>startAfter\<close> and no change was received
  yet, else \<open>resumeAfter\<close>, bound to the token; without a token but with an operation
  time it is \<open>startAtOperationTime\<close> on a server of wire version 7 or more, else none.
\<close>

theorem resumeOptions_one_resume_key:
  assumes "reachable c"
  shows "length (resume_keys (resumeOptions wire c)) \<le> 1
       \<and> (case resumeToken c of
            Some token \<Rightarrow>
              (if options c ''startAfter'' \<noteq> None \<and> \<not> hasReceived c
               then resume_keys (resumeOptions wire c) = [''startAfter'']
                    \<and> resumeOptions wire c ''startAfter'' = Some token
               else resume_keys (resumeOptions wire c) = [''resumeAfter'']
                    \<and> resumeOptions wire c ''resumeAfter'' = Some token)
          | None \<Rightarrow>
              (case startAtOperationTime c of
                 Some ts \<Rightarrow>
                   (if wire \<ge> 7
                    then resume_keys (resumeOptions wire c) = [''startAtOperationTime'']
                         \<and> resumeOptions wire c ''startAtOperationTime'' = Some ts
                    else resume_keys (resumeOptions wire c) = [])
               | None \<Rightarrow> resume_keys (resumeOptions wire c) = []))"
proof (cases "resumeToken c")
  case (Some token)
  show ?thesis
  proof (cases "options c ''startAfter'' \<noteq> None \<and> \<not> hasReceived c")
    case True
    with Some have "resumeOptions wire c =
        (filterOptions (options c) CURSOR_OPTIONS)
          (''resumeAfter'' := None, ''startAfter'' := None, ''startAtOperationTime'' := None,
           ''startAfter'' := Some token)"
      by (simp add: resumeOptions_def)
    with Some True show ?thesis
      by (simp add: resume_keys_def)
  next
    case False
    with Some have "resumeOptions wire c =
        (filterOptions (options c) CURSOR_OPTIONS)
          (''resumeAfter'' := None, ''startAfter'' := None, ''startAtOperationTime'' := None,
           ''resumeAfter'' := Some token)"
      by (auto simp: resumeOptions_def)
    with Some False show ?thesis
      by (simp add: resume_keys_def)
  qed
next
  case None
  show ?thesis
  proof (cases "startAtOperationTime c")
    case (Some ts)
    show ?thesis
    proof (cases "wire \<ge> 7")
      case True
      with None Some have "resumeOptions wire c =
          (filterOptions (options c) CURSOR_OPTIONS)
            (''resumeAfter'' := None, ''startAfter'' := None, ''startAtOperationTime'' := None,
             ''startAtOperationTime'' := Some ts)"
        by (simp add: resumeOptions_def)
      with None Some True show ?thesis
        by (simp add: resume_keys_def)
    next
      case False
      with None Some have "resumeOptions wire c =
          (filterOptions (options c) CURSOR_OPTIONS)
            (''resumeAfter'' := None, ''startAfter'' := None, ''startAtOperationTime'' := None)"
        by (simp add: resumeOptions_def)
      with None Some False show ?thesis
        by (simp add: resume_keys_def)
    qed
  next
    case n: None
    from reachable_guarded[OF assms] None n have "resume_keys (options c) = []"
      by (simp add: options_guarded_def)
    then have "resume_keys (filterOptions (options c) CURSOR_OPTIONS) = []"
      by (simp add: resume_keys_empty)
    moreover have "resumeOptions wire c = filterOptions (options c) CURSOR_OPTIONS"
      using None n by (simp add: resumeOptions_def)
    ultimately show ?thesis
      using None n by simp
  qed
qed

theorem resumeOptions_one_resume_key_witness:
  "reachable started_cursor
   \<and> resume_keys (resumeOptions 7 started_cursor) = [''resumeAfter'']
   \<and> resumeOptions 7 started_cursor ''resumeAfter'' = Some (Bson 5)"
proof -
  have r: "reachable started_cursor"
    unfolding started_cursor_def by (intro reachable.cached reachable.constructed)
  have f: "resumeToken started_cursor = Some (Bson 5)" "hasReceived started_cursor"
    by (simp_all add: started_cursor_def cacheResumeToken_def new_ChangeStreamCursor_def
        set_resumeToken_def perform_def bufferedCount_def)
  show ?thesis
    using r resumeOptions_one_resume_key [OF r, of 7] f by simp
qed

text \<open>
  C10. Right after construction, before any response (no id, not initialized), the
  resume token is the \<open>startAfter\<close> option if there is one, else the \<open>resumeAfter\<close>
  option, else \<open>null\<close>; when it is set, \<open>resumeTokenChanged\<close> has been emitted with it,
  and nothing else has been emitted.
\<close>

theorem constructor_resumeToken:
  "resumeToken (new_ChangeStreamCursor lb ns sess opts) =
     (case opts ''startAfter'' of Some token \<Rightarrow> Some token | None \<Rightarrow> opts ''resumeAfter'')
   \<and> effects (new_ChangeStreamCursor lb ns sess opts) =
     (case opts ''startAfter'' of
        Some token \<Rightarrow> [Emit_RESUME_TOKEN_CHANGED (Some token)]
      | None \<Rightarrow>
          (case opts ''resumeAfter'' of
             Some token \<Rightarrow> [Emit_RESUME_TOKEN_CHANGED (Some token)]
           | None \<Rightarrow> []))
   \<and> kId (new_ChangeStreamCursor lb ns sess opts) = None
   \<and> \<not> kInitialized (new_ChangeStreamCursor lb ns sess opts)"
  by (simp add: new_ChangeStreamCursor_def set_resumeToken_def perform_def Let_def
      split: option.splits)

lemma processBatch_fields:
  assumes "desc_postBatchResumeToken cur = Some token"
  shows "postBatchResumeToken (processBatch cur c) = Some token"
    and "resumeToken (processBatch cur c) = (if docs cur = [] then Some token else resumeToken c)"
  using assms by (simp_all add: processBatch_def set_resumeToken_def perform_def Let_def)

lemma perform_cs_fields:
  "postBatchResumeToken (perform x c) = postBatchResumeToken c"
  "resumeToken (perform x c) = resumeToken c"
  by (simp_all add: perform_def)

text \<open>
  C2. A batch whose \<open>cursor.postBatchResumeToken\<close> is present: \<open>_processBatch\<close> stores
  the token as post-batch resume token, and the resume token becomes that token when
  the batch is empty and stays as it was otherwise. The same holds after the callback of
  the initial aggregate and after the callback of a \<open>getMore\<close>, which call it.
\<close>

theorem processBatch_stores_token:
  assumes "desc_postBatchResumeToken cur = Some token"
  shows "postBatchResumeToken (processBatch cur c) = Some token
       \<and> resumeToken (processBatch cur c) = (if docs cur = [] then Some token else resumeToken c)
       \<and> postBatchResumeToken
           (fst (initialize sess srv None (Some \<lparr>raw_cursor = cur, raw_operationTime = ot\<rparr>) c))
         = Some token
       \<and> resumeToken
           (fst (initialize sess srv None (Some \<lparr>raw_cursor = cur, raw_operationTime = ot\<rparr>) c))
         = (if docs cur = [] then Some token else resumeToken c)
       \<and> postBatchResumeToken (fst (getMore (Inr cur) c)) = Some token
       \<and> resumeToken (fst (getMore (Inr cur) c))
         = (if docs cur = [] then Some token else resumeToken c)"
proof -
  have i: "fst (initialize sess srv None (Some \<lparr>raw_cursor = cur, raw_operationTime = ot\<rparr>) c) =
      perform Emit_RESPONSE (perform Emit_INIT (processBatch cur
        (if startAtOperationTime c = None \<and> resumeAfter c = None \<and> startAfter c = None
            \<and> maxWireVersion srv \<ge> 7
         then c\<lparr>startAtOperationTime := ot\<rparr> else c)))"
    by (simp add: initialize_def Let_def)
  have g: "fst (getMore (Inr cur) c) = perform Emit_RESPONSE (perform Emit_MORE (processBatch cur c))"
    by (simp add: getMore_def)
  show ?thesis
    unfolding i g perform_cs_fields
    using processBatch_fields[OF assms] by simp
qed

theorem processBatch_stores_token_witness:
  "desc_postBatchResumeToken empty_batch = Some (Bson 8)
   \<and> postBatchResumeToken (fst (getMore (Inr empty_batch) resumed_cursor)) = Some (Bson 8)
   \<and> resumeToken (fst (getMore (Inr empty_batch) resumed_cursor)) = Some (Bson 8)"
proof -
  have h: "desc_postBatchResumeToken empty_batch = Some (Bson 8)"
    by (simp add: empty_batch_def)
  have e: "docs empty_batch = []"
    by (simp add: empty_batch_def)
  show ?thesis
    using h processBatch_stores_token [OF h, of resumed_cursor] e by simp
qed

text \<open>
  C4. The claim is that the operation time of the first response is recorded only if
  none of \<open>resumeAfter\<close>, \<open>startAfter\<close>, \<open>startAtOperationTime\<close> was set. \<open>_initialize\<close>
  tests the fields \<open>this.resumeAfter\<close> and \<open>this.startAfter\<close>, which nothing assigns, in
  place of the options: a cursor built with \<open>resumeAfter\<close> records the operation time on
  a server of wire version 7.
\<close>

theorem initialize_records_operationTime_with_resumeAfter:
  "options resumed_cursor ''resumeAfter'' = Some (Bson 1)
   \<and> startAtOperationTime resumed_cursor = None
   \<and> startAtOperationTime (fst (initialize None (Server 7) None (Some first_response) resumed_cursor))
       = Some (Bson 99)"
  by (simp add: resumed_cursor_def first_response_def initialize_def new_ChangeStreamCursor_def
      set_resumeToken_def processBatch_def perform_def Let_def)

lemma cacheResumeToken_fields:
  "resumeToken (cacheResumeToken token c) =
     (if bufferedCount c = 0 \<and> postBatchResumeToken c \<noteq> None then postBatchResumeToken c else token)"
  "hasReceived (cacheResumeToken token c)"
  by (simp_all add: cacheResumeToken_def set_resumeToken_def perform_def)

text \<open>
  C1. An open change stream with a cursor processes a change that has an \<open>_id\<close>: the
  cursor it holds afterwards is the old one after \<open>cacheResumeToken(change._id)\<close>; its
  resume token is the post-batch resume token if the buffer of the cursor was empty and
  that token is present, the \<open>_id\<close> otherwise, and \<open>hasReceived\<close> is true.
\<close>

theorem processNewChange_caches_token:
  assumes "\<not> cs_kClosed cs" and "cursor cs = Some c" and "doc_id d = Some token"
  shows "cursor (processNewChange (Some d) cb cs) = Some (cacheResumeToken (Some token) c)
       \<and> resumeToken (cacheResumeToken (Some token) c) =
           (if bufferedCount c = 0 \<and> postBatchResumeToken c \<noteq> None
            then postBatchResumeToken c else Some token)
       \<and> hasReceived (cacheResumeToken (Some token) c)"
  using assms
  by (simp add: processNewChange_def cacheResumeToken_fields forward_def notify_def Let_def
      split: option.splits)

section \<open>Properties of the change stream\<close>

lemma kMode_notify [simp]: "kMode (notify x cs) = kMode cs"
  by (simp add: notify_def)

lemma kMode_forward [simp]: "kMode (forward a b cs) = kMode cs"
  by (simp add: forward_def)

lemma kMode_endStream [simp]: "kMode (endStream cs) = kMode cs"
  by (simp add: endStream_def)

lemma kMode_cs_close [simp]: "kMode (cs_close cs) = kMode cs"
  by (simp add: cs_close_def Let_def split: option.splits)

lemma kMode_closeWithError [simp]: "kMode (closeWithError err cb cs) = kMode cs"
  by (simp add: closeWithError_def split: option.splits)

lemma kMode_processNewChange [simp]: "kMode (processNewChange chg cb cs) = kMode cs"
  by (simp add: processNewChange_def Let_def split: option.splits)

lemma kMode_getCursor [simp]: "kMode (getCursor req cs) = kMode cs"
  by (simp add: getCursor_def)

lemma kMode_processResumeQueue [simp]: "kMode (processResumeQueue err cs) = kMode cs"
proof (induction err cs rule: processResumeQueue.induct)
  case (1 err cs)
  show ?case
  proof (cases "kResumeQueue cs = []")
    case True
    then show ?thesis by (subst processResumeQueue.simps) simp
  next
    case False
    let ?cs1 = "cs\<lparr>kResumeQueue := butlast (kResumeQueue cs)\<rparr>"
    show ?thesis
    proof (cases "(err = None \<and> cs_kClosed ?cs1) \<or> (err = None \<and> cursor ?cs1 = None)")
      case True
      with False show ?thesis
        by (subst processResumeQueue.simps) (auto simp: Let_def)
    next
      case stop: False
      have "kMode (processResumeQueue err
              (notify (Handed (last (kResumeQueue cs)) err (cursor ?cs1 \<noteq> None)) ?cs1)) =
            kMode (notify (Handed (last (kResumeQueue cs)) err (cursor ?cs1 \<noteq> None)) ?cs1)"
        using False stop by (intro "1.IH"[OF False refl refl]) auto
      with False stop show ?thesis
        by (subst processResumeQueue.simps) (auto simp: Let_def)
    qed
  qed
qed

lemma kMode_resumeWithCursor [simp]: "kMode (resumeWithCursor c cs) = kMode cs"
  by (simp add: resumeWithCursor_def)

lemma kMode_unresumableError [simp]: "kMode (unresumableError err cb cs) = kMode cs"
  by (simp add: unresumableError_def split: option.splits)

lemma kMode_processError [simp]: "kMode (fst (processError r err cb cs)) = kMode cs"
  by (simp add: processError_def split: option.splits)

lemma kMode_next_failed [simp]: "kMode (fst (next_failed r err cb cs)) = kMode cs"
  by (simp add: next_failed_def)

lemma iterator_entry:
  "kMode cs = Iterator \<Longrightarrow> setIsIterator cs = Inr cs"
  "kMode cs = Emitter \<Longrightarrow> setIsIterator cs = Inl ITERATOR_AFTER_EMITTER"
  "kMode cs = Emitter \<Longrightarrow> setIsEmitter cs = Inr cs"
  "kMode cs = Iterator \<Longrightarrow> setIsEmitter cs = Inl EMITTER_AFTER_ITERATOR"
  by (simp_all add: setIsIterator_def setIsEmitter_def ITERATOR_AFTER_EMITTER_def
      EMITTER_AFTER_ITERATOR_def)

lemma step_keeps_iterator:
  assumes "kMode cs = Iterator"
  shows "kMode (snd (step op cs)) = Iterator"
  using assms
  by (cases op)
    (auto simp: thrown_or_state_def cs_next_def cs_hasNext_def cs_tryNext_def on_change_def
      streamEvents_def topologyConnected_def createChangeStreamCursor_def iterator_entry Let_def
      split: option.splits sum.splits prod.splits)

lemma step_keeps_emitter:
  assumes "kMode cs = Emitter"
  shows "kMode (snd (step op cs)) = Emitter"
  using assms
  by (cases op)
    (auto simp: thrown_or_state_def cs_next_def cs_hasNext_def cs_tryNext_def on_change_def
      streamEvents_def topologyConnected_def createChangeStreamCursor_def iterator_entry Let_def
      split: option.splits sum.splits prod.splits)

lemma run_keeps_iterator: "kMode cs = Iterator \<Longrightarrow> kMode (run ops cs) = Iterator"
  by (induction ops arbitrary: cs) (simp_all add: step_keeps_iterator)

lemma run_keeps_emitter: "kMode cs = Emitter \<Longrightarrow> kMode (run ops cs) = Emitter"
  by (induction ops arbitrary: cs) (simp_all add: step_keeps_emitter)

lemma iterator_op_enters:
  assumes "is_iterator_op op" and "fst (step op cs) = None"
  shows "kMode (snd (step op cs)) = Iterator"
  using assms
  by (cases op)
    (auto simp: thrown_or_state_def cs_next_def cs_hasNext_def cs_tryNext_def setIsIterator_def
      split: sum.splits if_splits)

lemma emitter_op_enters:
  assumes "enters_emitter op cs" and "fst (step op cs) = None"
  shows "kMode (snd (step op cs)) = Emitter"
  using assms
  by (cases op)
    (auto simp: thrown_or_state_def on_change_def streamEvents_def setIsEmitter_def
      split: sum.splits if_splits)

lemma emitter_op_conflict:
  assumes "kMode cs = Iterator" and "enters_emitter op cs"
  shows "step op cs = (Some EMITTER_AFTER_ITERATOR, cs)"
  using assms
  by (cases op)
    (auto simp: thrown_or_state_def on_change_def streamEvents_def iterator_entry)

lemma iterator_op_conflict:
  assumes "kMode cs = Emitter" and "is_iterator_op op"
  shows "step op cs = (Some ITERATOR_AFTER_EMITTER, cs)"
  using assms
  by (cases op)
    (auto simp: thrown_or_state_def cs_next_def cs_hasNext_def cs_tryNext_def iterator_entry)

text \<open>
  C6, as amended. After a first iterator operation that succeeds (\<open>next\<close>, \<open>hasNext\<close>,
  \<open>tryNext\<close>) and any operations after it, the mode is \<open>iterator\<close> and an operation that
  goes through \<open>_streamEvents\<close> (the call itself, or attaching a first \<open>change\<close> listener
  while the stream has a cursor) throws the mode-conflict error and changes nothing.
  After a first such emitter operation and any operations after it, the mode is
  \<open>emitter\<close> and every iterator operation throws the mode-conflict error.
\<close>

theorem mode_sticky:
  assumes "fst (step op0 cs) = None"
  shows "(is_iterator_op op0 \<and> enters_emitter op (run ops (snd (step op0 cs))) \<longrightarrow>
            kMode (run ops (snd (step op0 cs))) = Iterator
            \<and> step op (run ops (snd (step op0 cs)))
                = (Some EMITTER_AFTER_ITERATOR, run ops (snd (step op0 cs))))
       \<and> (enters_emitter op0 cs \<and> is_iterator_op op \<longrightarrow>
            kMode (run ops (snd (step op0 cs))) = Emitter
            \<and> step op (run ops (snd (step op0 cs)))
                = (Some ITERATOR_AFTER_EMITTER, run ops (snd (step op0 cs))))"
proof (intro conjI impI)
  assume a: "is_iterator_op op0 \<and> enters_emitter op (run ops (snd (step op0 cs)))"
  then have "kMode (snd (step op0 cs)) = Iterator"
    using assms by (simp add: iterator_op_enters)
  then show m: "kMode (run ops (snd (step op0 cs))) = Iterator"
    by (rule run_keeps_iterator)
  show "step op (run ops (snd (step op0 cs)))
          = (Some EMITTER_AFTER_ITERATOR, run ops (snd (step op0 cs)))"
    using m a by (simp add: emitter_op_conflict)
next
  assume a: "enters_emitter op0 cs \<and> is_iterator_op op"
  then have "kMode (snd (step op0 cs)) = Emitter"
    using assms by (simp add: emitter_op_enters)
  then show m: "kMode (run ops (snd (step op0 cs))) = Emitter"
    by (rule run_keeps_emitter)
  show "step op (run ops (snd (step op0 cs)))
          = (Some ITERATOR_AFTER_EMITTER, run ops (snd (step op0 cs)))"
    using m a by (simp add: iterator_op_conflict)
qed

text \<open>
  With an error, and on an open stream that has a cursor, \<open>_processResumeQueue\<close> does
  empty the queue; closing a change stream twice is closing it once.
\<close>

lemma processResumeQueue_error_drains:
  "kResumeQueue (processResumeQueue (Some e) cs) = []"
proof (induction "Some e :: error option" cs rule: processResumeQueue.induct)
  case (1 cs)
  show ?case
  proof (cases "kResumeQueue cs = []")
    case True
    then show ?thesis by (subst processResumeQueue.simps) simp
  next
    case False
    then show ?thesis
      using "1.hyps"[OF False refl refl]
      by (subst processResumeQueue.simps) (simp add: Let_def)
  qed
qed

lemma processResumeQueue_open_drains:
  assumes "\<not> cs_kClosed cs" and "cursor cs \<noteq> None"
  shows "kResumeQueue (processResumeQueue None cs) = []"
  using assms
proof (induction "None :: error option" cs rule: processResumeQueue.induct)
  case (1 cs)
  show ?case
  proof (cases "kResumeQueue cs = []")
    case True
    then show ?thesis by (subst processResumeQueue.simps) simp
  next
    case False
    then show ?thesis
      using "1.hyps"[OF False refl refl] "1.prems"
      by (subst processResumeQueue.simps) (auto simp: Let_def notify_def)
  qed
qed

lemma cs_close_twice: "cs_close (cs_close cs) = cs_close cs"
  by (simp add: cs_close_def endStream_def forward_def Let_def split: option.splits)


lemmas engine_defs =
  stream0_def waiting_def closed_while_waiting_def after_resume_def new_ChangeStream_def
  next_failed_def processError_def topologyConnected_def createChangeStreamCursor_def
  resumeWithCursor_def unresumableError_def cs_next_def cs_hasNext_def cs_tryNext_def
  setIsIterator_def setIsEmitter_def streamEvents_def on_change_def getCursor_def
  cs_close_def endStream_def forward_def notify_def thrown_or_state_def
  new_ChangeStreamCursor_def set_resumeToken_def perform_def close_def cleanupCursor_def
  completeCleanup_def releaseSession_def Let_def CHANGESTREAM_CLOSED_ERROR_def
  EMITTER_AFTER_ITERATOR_def ITERATOR_AFTER_EMITTER_def

text \<open>
  C5. The claim is that the resume queue is empty after every resume attempt and that
  every queued continuation receives the closed error when the stream is found closed.
  \<open>_processResumeQueue\<close> returns after the first continuation it fails: when \<open>next\<close>
  (callback 1) has failed with a resumable error, a second \<open>next\<close> (callback 2) has been
  queued and \<open>close()\<close> has been called during the wait, the resume hands the closed
  error to the continuation of callback 2 and leaves the retry of callback 1 queued.
\<close>

theorem resume_after_close_leaves_request_queued:
  "(case after_resume of
      Inl thrown \<Rightarrow> False
    | Inr cs \<Rightarrow>
        cs_kClosed cs
        \<and> kResumeQueue cs = [RetryNext 1]
        \<and> filter is_Handed (notices cs) =
            [Handed (NextCont 1) None True,
             Handed (NextCont 2) (Some (MongoAPIError CHANGESTREAM_CLOSED_ERROR)) False])"
  by (simp add: engine_defs processResumeQueue.simps)

text \<open>
  C6. The claim is that, after a first successful iterator operation, attaching the
  first \<open>change\<close> listener fails with the mode-conflict error. The handler of
  \<open>newListener\<close> calls \<open>_streamEvents\<close> only if the stream has a cursor: while a resume is
  waiting for the topology the stream has none, and the listener is attached without
  error in iterator mode.
\<close>

theorem listener_attached_in_iterator_mode:
  "fst (step (OpNext 1) stream0) = None
   \<and> kMode (fst waiting) = Iterator
   \<and> change_listeners (fst waiting) = 0
   \<and> fst (step OpOnChange (fst waiting)) = None
   \<and> change_listeners (snd (step OpOnChange (fst waiting))) = 1"
  by (simp add: engine_defs)

theorem mode_sticky_witness:
  "fst (step (OpNext 1) stream0) = None
   \<and> is_iterator_op (OpNext 1)
   \<and> enters_emitter OpOnChange (run [] (snd (step (OpNext 1) stream0)))
   \<and> fst (step OpOnChange (run [] (snd (step (OpNext 1) stream0)))) = Some EMITTER_AFTER_ITERATOR
   \<and> fst (step OpOnChange stream0) = None
   \<and> enters_emitter OpOnChange stream0
   \<and> is_iterator_op (OpNext 2)
   \<and> fst (step (OpNext 2) (run [OpClose] (snd (step OpOnChange stream0)))) = Some ITERATOR_AFTER_EMITTER"
proof -
  have a: "fst (step (OpNext 1) stream0) = None"
    by (simp add: engine_defs)
  have b: "enters_emitter OpOnChange (run [] (snd (step (OpNext 1) stream0)))"
    by (simp add: engine_defs)
  have c: "fst (step OpOnChange stream0) = None"
    by (simp add: engine_defs)
  have d: "enters_emitter OpOnChange stream0"
    by (simp add: engine_defs)
  show ?thesis
    using a b c d
      mode_sticky [OF a, of OpOnChange "[]"]
      mode_sticky [OF c, of "OpNext 2" "[OpClose]"]
    by simp
qed

theorem processNewChange_caches_token_witness:
  "\<not> cs_kClosed stream0
   \<and> doc_id (Change (Some (Bson 5)) 0) = Some (Bson 5)
   \<and> (case cursor (processNewChange (Some (Change (Some (Bson 5)) 0)) (Some 1) stream0) of
         None \<Rightarrow> False
       | Some c \<Rightarrow> resumeToken c = Some (Bson 5) \<and> hasReceived c)"
proof -
  let ?c = "new_ChangeStreamCursor False ''db.c'' None (filterOptions Map.empty CURSOR_OPTIONS)
              :: change change_stream_cursor"
  have a: "\<not> cs_kClosed stream0"
    by (simp add: stream0_def new_ChangeStream_def)
  have b: "cursor stream0 = Some ?c"
    by (simp add: stream0_def new_ChangeStream_def)
  have c: "doc_id (Change (Some (Bson 5)) 0) = Some (Bson 5)"
    by simp
  have d: "postBatchResumeToken ?c = None"
    by (simp add: new_ChangeStreamCursor_def set_resumeToken_def perform_def filterOptions_def)
  show ?thesis
    using a c d processNewChange_caches_token [OF a b c, of "Some 1"] by simp
qed

end
